theory Spec2Isabelle
  imports Main "HOL-Library.Word"
begin

unbundle bit_operations_syntax

section \<open>Token codec\<close>

text \<open>
  The session id is \<^verbatim>\<open>encodeHexLowerCase(sha256(new TextEncoder().encode(token)))\<close>.
  The three functions come from libraries (the platform's TextEncoder and the hashing and
  encoding packages); they are modelled here from their standards: UTF-8, FIPS 180-4 and
  lower-case base 16. The round constants and the initial hash value of the standard are
  written in decimal. A JavaScript string is modelled as a \<^typ>\<open>string\<close> whose characters
  are the code points 0..255; bytes are \<^typ>\<open>8 word\<close>.
\<close>

type_synonym u8 = "8 word"
type_synonym u32 = "32 word"

definition encode :: "string \<Rightarrow> u8 list" where
  "encode s = concat (map (\<lambda>c. let n = (of_char c :: nat)
                                 in if n < 128 then [of_nat n]
                                    else [of_nat (192 + n div 64), of_nat (128 + n mod 64)]) s)"

definition rotr :: "nat \<Rightarrow> u32 \<Rightarrow> u32" where
  "rotr n x = (drop_bit n x) OR (push_bit (32 - n) x)"

definition ch :: "u32 \<Rightarrow> u32 \<Rightarrow> u32 \<Rightarrow> u32" where
  "ch x y z = (x AND y) XOR (NOT x AND z)"

definition maj :: "u32 \<Rightarrow> u32 \<Rightarrow> u32 \<Rightarrow> u32" where
  "maj x y z = (x AND y) XOR (x AND z) XOR (y AND z)"

definition bsig0 :: "u32 \<Rightarrow> u32" where
  "bsig0 x = rotr 2 x XOR rotr 13 x XOR rotr 22 x"

definition bsig1 :: "u32 \<Rightarrow> u32" where
  "bsig1 x = rotr 6 x XOR rotr 11 x XOR rotr 25 x"

definition ssig0 :: "u32 \<Rightarrow> u32" where
  "ssig0 x = rotr 7 x XOR rotr 18 x XOR drop_bit 3 x"

definition ssig1 :: "u32 \<Rightarrow> u32" where
  "ssig1 x = rotr 17 x XOR rotr 19 x XOR drop_bit 10 x"

definition K256 :: "u32 list" where
  "K256 = [
    1116352408, 1899447441, 3049323471, 3921009573, 961987163, 1508970993,
    2453635748, 2870763221, 3624381080, 310598401, 607225278, 1426881987,
    1925078388, 2162078206, 2614888103, 3248222580, 3835390401, 4022224774,
    264347078, 604807628, 770255983, 1249150122, 1555081692, 1996064986,
    2554220882, 2821834349, 2952996808, 3210313671, 3336571891, 3584528711,
    113926993, 338241895, 666307205, 773529912, 1294757372, 1396182291,
    1695183700, 1986661051, 2177026350, 2456956037, 2730485921, 2820302411,
    3259730800, 3345764771, 3516065817, 3600352804, 4094571909, 275423344,
    430227734, 506948616, 659060556, 883997877, 958139571, 1322822218,
    1537002063, 1747873779, 1955562222, 2024104815, 2227730452, 2361852424,
    2428436474, 2756734187, 3204031479, 3329325298]"

type_synonym hstate = "u32 \<times> u32 \<times> u32 \<times> u32 \<times> u32 \<times> u32 \<times> u32 \<times> u32"

definition H0 :: hstate where
  "H0 = (1779033703, 3144134277, 1013904242, 2773480762,
         1359893119, 2600822924, 528734635, 1541459225)"

definition be32 :: "u8 list \<Rightarrow> u32" where
  "be32 bs = foldl (\<lambda>acc b. push_bit 8 acc OR ucast b) 0 bs"

definition bytes_of_u32 :: "u32 \<Rightarrow> u8 list" where
  "bytes_of_u32 w = [ucast (drop_bit 24 w), ucast (drop_bit 16 w), ucast (drop_bit 8 w), ucast w]"

definition bytes_of_u64 :: "64 word \<Rightarrow> u8 list" where
  "bytes_of_u64 w = map (\<lambda>i. ucast (drop_bit (8 * (7 - i)) w)) [0..<8]"

definition pad :: "u8 list \<Rightarrow> u8 list" where
  "pad m = m @ [0x80] @ replicate ((119 - length m mod 64) mod 64) 0
             @ bytes_of_u64 (of_nat (8 * length m))"

function chunks :: "nat \<Rightarrow> 'a list \<Rightarrow> 'a list list" where
  "chunks n xs = (if n = 0 \<or> xs = [] then [] else take n xs # chunks n (drop n xs))"
  by pat_completeness auto
termination
  by (relation "measure (\<lambda>(n, xs). length xs)") auto

declare chunks.simps [simp del]

fun schedule :: "nat \<Rightarrow> u32 list \<Rightarrow> u32 list" where
  "schedule 0 ws = ws"
| "schedule (Suc k) ws =
     (let t = length ws
      in schedule k (ws @ [ssig1 (ws ! (t - 2)) + ws ! (t - 7)
                            + ssig0 (ws ! (t - 15)) + ws ! (t - 16)]))"

definition round_step :: "hstate \<Rightarrow> u32 \<times> u32 \<Rightarrow> hstate" where
  "round_step st kw =
     (case st of (a, b, c, d, e, f, g, h) \<Rightarrow>
        (let t1 = h + bsig1 e + ch e f g + fst kw + snd kw;
             t2 = bsig0 a + maj a b c
         in (t1 + t2, a, b, c, d + t1, e, f, g)))"

definition compress :: "hstate \<Rightarrow> u8 list \<Rightarrow> hstate" where
  "compress st block =
     (let ws = schedule 48 (map be32 (chunks 4 block))
      in case (st, foldl round_step st (zip K256 ws)) of
           ((a, b, c, d, e, f, g, h), (a', b', c', d', e', f', g', h')) \<Rightarrow>
             (a + a', b + b', c + c', d + d', e + e', f + f', g + g', h + h'))"

definition sha256 :: "u8 list \<Rightarrow> u8 list" where
  "sha256 m =
     (case foldl compress H0 (chunks 64 (pad m)) of
        (a, b, c, d, e, f, g, h) \<Rightarrow> concat (map bytes_of_u32 [a, b, c, d, e, f, g, h]))"

definition hexdigit :: "nat \<Rightarrow> char" where
  "hexdigit n = ''0123456789abcdef'' ! n"

definition encodeHexLowerCase :: "u8 list \<Rightarrow> string" where
  "encodeHexLowerCase bs =
     concat (map (\<lambda>b. [hexdigit (unat b div 16), hexdigit (unat b mod 16)]) bs)"

text \<open>
  The id under which the session of a token is stored, as \<^verbatim>\<open>createSession\<close> and
  \<^verbatim>\<open>validateSessionToken\<close> both compute it.
\<close>

definition id_of_token :: "string \<Rightarrow> string" where
  "id_of_token token = encodeHexLowerCase (sha256 (encode token))"

text \<open>
  \<^verbatim>\<open>generateSessionToken\<close>: 32 random bytes, base 32, lower case, no padding. The bytes
  that \<^verbatim>\<open>crypto.getRandomValues\<close> delivers are an argument of the model.
\<close>

definition bits_of_u8 :: "u8 \<Rightarrow> bool list" where
  "bits_of_u8 b = map (\<lambda>i. bit b (7 - i)) [0..<8]"

definition nat_of_bits :: "bool list \<Rightarrow> nat" where
  "nat_of_bits bs = foldl (\<lambda>acc b. 2 * acc + (if b then 1 else 0)) 0 bs"

definition encodeBase32LowerCaseNoPadding :: "u8 list \<Rightarrow> string" where
  "encodeBase32LowerCaseNoPadding bytes =
     map (\<lambda>g. ''abcdefghijklmnopqrstuvwxyz234567'' ! nat_of_bits (g @ replicate (5 - length g) False))
         (chunks 5 (concat (map bits_of_u8 bytes)))"

definition generateSessionToken :: "u8 list \<Rightarrow> string" where
  "generateSessionToken bytes = encodeBase32LowerCaseNoPadding bytes"

section \<open>Data model and session store\<close>

text \<open>
  Rows of the \<^verbatim>\<open>Session\<close> and \<^verbatim>\<open>User\<close> tables. A \<^verbatim>\<open>Date\<close> is its
  number of milliseconds since the epoch, an \<^typ>\<open>int\<close>.
\<close>

record Session =
  id_session :: string
  userId :: string
  expiresAt :: int

record User =
  id_user :: string
  email :: string
  password :: string

text \<open>The user attributes that a session lookup returns: the row without the password.\<close>

record SessionUser =
  id_of :: string
  email_of :: string

datatype DbError = StoreUnavailable | NotFound

datatype StoreCall =
    Get string
  | Put Session
  | UpdateExpiry string int
  | Delete string
  | GetUserByEmail string

text \<open>
  The store: the two tables, which calls the backend currently fails
  (\<open>unavailable\<close>), and the calls issued so far, oldest first (\<open>issued\<close>), kept so that
  "issues exactly one delete" can be stated.
\<close>

record Store =
  sessions :: "string \<rightharpoonup> Session"
  users :: "User list"
  unavailable :: "StoreCall \<Rightarrow> bool"
  issued :: "StoreCall list"

definition issue :: "StoreCall \<Rightarrow> Store \<Rightarrow> Store" where
  "issue c db = db\<lparr>issued := issued db @ [c]\<rparr>"

text \<open>
  Modelled from the spec: \<open>SESSION_LIFETIME\<close>, the validity of a session from creation or
  renewal; 30 days, the lifetime that \<^verbatim>\<open>createSession\<close> writes.
\<close>

definition SESSION_LIFETIME :: int where
  "SESSION_LIFETIME = 1000 * 60 * 60 * 24 * 30"

text \<open>\<^verbatim>\<open>ms('15d')\<close>: fifteen days in milliseconds.\<close>

definition ms_15d :: int where
  "ms_15d = 15 * 24 * 60 * 60 * 1000"

text \<open>
  The query functions of \<^verbatim>\<open>$lib/server/db/queries.js\<close> are not among the sources. Each
  is modelled from the spec's Session Store Adapter: every operation fails with
  \<open>StoreUnavailable\<close> on infrastructure failure and then changes nothing. The callers
  destructure the value of a lookup without a null check, so an absent row is the error
  \<open>NotFound\<close>.
\<close>

text \<open>
  Modelled from the spec: \<^verbatim>\<open>getFullSession\<close>, the adapter's \<open>get\<close>, a point lookup
  joined with the owning user's public attributes.
\<close>

definition getFullSession ::
  "string \<Rightarrow> Store \<Rightarrow> (DbError + SessionUser \<times> Session) \<times> Store" where
  "getFullSession sessionId db =
     (let db' = issue (Get sessionId) db
      in if unavailable db (Get sessionId) then (Inl StoreUnavailable, db')
         else case sessions db sessionId of
                None \<Rightarrow> (Inl NotFound, db')
              | Some s \<Rightarrow>
                  (case find (\<lambda>u. id_user u = userId s) (users db) of
                     None \<Rightarrow> (Inl NotFound, db')
                   | Some u \<Rightarrow> (Inr (\<lparr>id_of = id_user u, email_of = email u\<rparr>, s), db')))"

text \<open>
  Modelled from the spec: \<^verbatim>\<open>deleteSession\<close>, the adapter's \<open>delete\<close>; deleting an
  absent record is not an error.
\<close>

definition deleteSession :: "string \<Rightarrow> Store \<Rightarrow> (DbError + unit) \<times> Store" where
  "deleteSession sessionId db =
     (let db' = issue (Delete sessionId) db
      in if unavailable db (Delete sessionId) then (Inl StoreUnavailable, db')
         else (Inr (), db'\<lparr>sessions := (sessions db)(sessionId := None)\<rparr>))"

text \<open>
  Modelled from the spec: \<^verbatim>\<open>extendSession\<close>, the adapter's
  \<open>updateExpiry(lookupId, now + SESSION_LIFETIME)\<close>, a no-op when the record is gone. The
  source passes only the id, so the clock is read inside. The write is unconditional: no
  comparison with the old expiry is built into it.
\<close>

definition extendSession :: "string \<Rightarrow> int \<Rightarrow> Store \<Rightarrow> (DbError + unit) \<times> Store" where
  "extendSession sessionId now db =
     (let newExpiresAt = now + SESSION_LIFETIME;
          db' = issue (UpdateExpiry sessionId newExpiresAt) db
      in if unavailable db (UpdateExpiry sessionId newExpiresAt) then (Inl StoreUnavailable, db')
         else case sessions db sessionId of
                None \<Rightarrow> (Inr (), db')
              | Some s \<Rightarrow>
                  (Inr (), db'\<lparr>sessions := (sessions db)(sessionId \<mapsto> s\<lparr>expiresAt := newExpiresAt\<rparr>)\<rparr>))"

text \<open>
  Modelled from the spec: \<^verbatim>\<open>createSessionDb\<close>, the adapter's \<open>put\<close>, which inserts
  or replaces the record under its id.
\<close>

definition createSessionDb :: "Session \<Rightarrow> Store \<Rightarrow> (DbError + unit) \<times> Store" where
  "createSessionDb s db =
     (let db' = issue (Put s) db
      in if unavailable db (Put s) then (Inl StoreUnavailable, db')
         else (Inr (), db'\<lparr>sessions := (sessions db)(id_session s \<mapsto> s)\<rparr>))"

text \<open>
  Modelled from the spec: \<^verbatim>\<open>getAuthUser\<close>, the lookup of a user row, with its password
  hash, by email; the sign-in route treats its error as unknown credentials.
\<close>

definition getAuthUser :: "string \<Rightarrow> Store \<Rightarrow> (DbError + User) \<times> Store" where
  "getAuthUser mail db =
     (let db' = issue (GetUserByEmail mail) db
      in if unavailable db (GetUserByEmail mail) then (Inl StoreUnavailable, db')
         else case find (\<lambda>u. email u = mail) (users db) of
                None \<Rightarrow> (Inl NotFound, db')
              | Some u \<Rightarrow> (Inr u, db'))"

section \<open>Session lifecycle\<close>

text \<open>
  \<^verbatim>\<open>createSession\<close> and \<^verbatim>\<open>validateSessionToken\<close>. Inside \<^verbatim>\<open>safeTry\<close>, a
  \<^verbatim>\<open>yield*\<close> on an error result ends the function with that error; each is a \<open>case\<close>
  here. The readings of \<^verbatim>\<open>Date.now()\<close> within one call are one instant, the argument
  \<open>now\<close>.
\<close>

record SessionValidationResult =
  session :: "Session option"
  user :: "SessionUser option"

definition createSession ::
  "string \<Rightarrow> string \<Rightarrow> int \<Rightarrow> Store \<Rightarrow> (DbError + Session) \<times> Store" where
  "createSession token uid now db =
     (let sessionId = encodeHexLowerCase (sha256 (encode token));
          s = \<lparr>id_session = sessionId, userId = uid,
               expiresAt = now + 1000 * 60 * 60 * 24 * 30\<rparr>
      in case createSessionDb s db of
           (Inl e, db1) \<Rightarrow> (Inl e, db1)
         | (Inr _, db1) \<Rightarrow> (Inr s, db1))"

definition validateSessionToken ::
  "string \<Rightarrow> int \<Rightarrow> Store \<Rightarrow> (DbError + SessionValidationResult) \<times> Store" where
  "validateSessionToken token now db =
     (let sessionId = encodeHexLowerCase (sha256 (encode token))
      in case getFullSession sessionId db of
           (Inl e, db1) \<Rightarrow> (Inl e, db1)
         | (Inr (u, s), db1) \<Rightarrow>
             if now \<ge> expiresAt s then
               (case deleteSession sessionId db1 of
                  (Inl e, db2) \<Rightarrow> (Inl e, db2)
                | (Inr _, db2) \<Rightarrow> (Inr \<lparr>session = None, user = None\<rparr>, db2))
             else if now \<ge> expiresAt s - ms_15d then
               (case extendSession sessionId now db1 of
                  (Inl e, db2) \<Rightarrow> (Inl e, db2)
                | (Inr _, db2) \<Rightarrow> (Inr \<lparr>session = Some s, user = Some u\<rparr>, db2))
             else (Inr \<lparr>session = Some s, user = Some u\<rparr>, db1))"

section \<open>Cookie binding\<close>

text \<open>
  The \<^verbatim>\<open>Cookies\<close> object belongs to the web framework. Its \<^verbatim>\<open>set\<close> merges the
  options it is given over the framework's defaults (\<^verbatim>\<open>httpOnly: true\<close>,
  \<^verbatim>\<open>sameSite: 'lax'\<close>, and \<^verbatim>\<open>secure: true\<close> unless the request came over plain http
  to localhost). The default for \<^verbatim>\<open>secure\<close> is the field \<open>secure_default\<close>, a parameter
  of the model. An option the caller leaves out is \<open>None\<close>.
\<close>

datatype SameSite = Lax | Strict | NoSameSite

record CookieOptions =
  httpOnly :: "bool option"
  sameSite :: "SameSite option"
  secure :: "bool option"
  expires :: "int option"
  maxAge :: "int option"
  path :: "string option"

record Cookies =
  incoming :: "string \<rightharpoonup> string"
  secure_default :: bool
  outgoing :: "string \<rightharpoonup> string \<times> CookieOptions"

definition with_defaults :: "bool \<Rightarrow> CookieOptions \<Rightarrow> CookieOptions" where
  "with_defaults d opts =
     opts\<lparr>httpOnly := (case httpOnly opts of None \<Rightarrow> Some True | Some b \<Rightarrow> Some b),
          sameSite := (case sameSite opts of None \<Rightarrow> Some Lax | Some x \<Rightarrow> Some x),
          secure := (case secure opts of None \<Rightarrow> Some d | Some b \<Rightarrow> Some b)\<rparr>"

definition cookies_set :: "string \<Rightarrow> string \<Rightarrow> CookieOptions \<Rightarrow> Cookies \<Rightarrow> Cookies" where
  "cookies_set name val opts c =
     c\<lparr>outgoing := (outgoing c)(name \<mapsto> (val, with_defaults (secure_default c) opts))\<rparr>"

definition setSessionTokenCookie :: "Cookies \<Rightarrow> string \<Rightarrow> int \<Rightarrow> Cookies" where
  "setSessionTokenCookie c token expiry =
     cookies_set ''session'' token
       \<lparr>httpOnly = Some True, sameSite = Some Lax, secure = None,
        expires = Some expiry, maxAge = None, path = Some ''/''\<rparr> c"

definition deleteSessionTokenCookie :: "Cookies \<Rightarrow> Cookies" where
  "deleteSessionTokenCookie c =
     cookies_set ''session'' ''token''
       \<lparr>httpOnly = Some True, sameSite = Some Lax, secure = None,
        expires = None, maxAge = Some 0, path = Some ''/''\<rparr> c"

section \<open>Request authentication middleware\<close>

record Locals =
  locals_user :: "SessionUser option"
  locals_session :: "Session option"

record RequestEvent =
  cookies :: Cookies
  locals :: Locals

text \<open>
  Modelled from the spec: \<^verbatim>\<open>getSessionCookie\<close> is not among the sources. The
  middleware reads the cookie of the request, whose name is \<^verbatim>\<open>session\<close>.
\<close>

definition getSessionCookie :: "RequestEvent \<Rightarrow> string option" where
  "getSessionCookie event = incoming (cookies event) ''session''"

text \<open>
  \<^verbatim>\<open>handle\<close>. Every path of the source ends in \<^verbatim>\<open>return resolve(event)\<close>; the
  model returns the event that is handed to \<^verbatim>\<open>resolve\<close>, and the store.
  \<^verbatim>\<open>!sessionToken\<close> holds for a missing cookie and for the empty string.
\<close>

definition anonymous :: Locals where
  "anonymous = \<lparr>locals_user = None, locals_session = None\<rparr>"

definition handle :: "RequestEvent \<Rightarrow> int \<Rightarrow> Store \<Rightarrow> RequestEvent \<times> Store" where
  "handle event now db =
     (case getSessionCookie event of
        None \<Rightarrow> (event\<lparr>locals := anonymous\<rparr>, db)
      | Some sessionToken \<Rightarrow>
          if sessionToken = [] then (event\<lparr>locals := anonymous\<rparr>, db)
          else
            (case validateSessionToken sessionToken now db of
               (Inr r, db1) \<Rightarrow>
                 if session r \<noteq> None
                 then (event\<lparr>locals := \<lparr>locals_user = user r, locals_session = session r\<rparr>\<rparr>, db1)
                 else (event\<lparr>locals := anonymous,
                             cookies := deleteSessionTokenCookie (cookies event)\<rparr>, db1)
             | (Inl e, db1) \<Rightarrow>
                 (event\<lparr>locals := anonymous,
                        cookies := deleteSessionTokenCookie (cookies event)\<rparr>, db1)))"

section \<open>Sign-in and sign-out endpoints\<close>

text \<open>
  The request body after \<^verbatim>\<open>request.json()\<close>: not JSON at all (the call throws), JSON
  that is not an object, or an object, of whose fields the schema looks only at strings.
\<close>

datatype JsonValue = JString string | JOther

datatype RequestBody = InvalidJson | NonObject | Object "string \<rightharpoonup> JsonValue"

datatype ResponseBody = Message string | SuccessTrue

record Response =
  status :: nat
  body :: ResponseBody

text \<open>
  \<^verbatim>\<open>schema.parse\<close>: both fields are strings, the email passes the validation
  library's email test (the parameter \<open>isEmail\<close>) and the password has at least 8
  characters. \<open>None\<close> is the thrown \<^verbatim>\<open>ZodError\<close>.
\<close>

definition schema_parse :: "(string \<Rightarrow> bool) \<Rightarrow> RequestBody \<Rightarrow> (string \<times> string) option" where
  "schema_parse isEmail b =
     (case b of
        Object obj \<Rightarrow>
          (case (obj ''email'', obj ''password'') of
             (Some (JString e), Some (JString p)) \<Rightarrow>
               if isEmail e \<and> 8 \<le> length p then Some (e, p) else None
           | _ \<Rightarrow> None)
      | _ \<Rightarrow> None)"

text \<open>
  \<^verbatim>\<open>POST\<close> of the sign-in route. \<open>compare\<close> is the password library's comparison
  of a password with a stored hash, \<open>bytes\<close> the random bytes of the token, \<open>now\<close> the
  clock.
\<close>

definition signin_POST ::
  "(string \<Rightarrow> bool) \<Rightarrow> (string \<Rightarrow> string \<Rightarrow> bool) \<Rightarrow> u8 list \<Rightarrow> int
     \<Rightarrow> RequestBody \<Rightarrow> Cookies \<Rightarrow> Store \<Rightarrow> Response \<times> Cookies \<times> Store" where
  "signin_POST isEmail compare bytes now b c db =
     (case b of
        InvalidJson \<Rightarrow> (\<lparr>status = 500, body = Message ''Internal server error''\<rparr>, c, db)
      | _ \<Rightarrow>
        (case schema_parse isEmail b of
           None \<Rightarrow> (\<lparr>status = 400, body = Message ''Invalid input''\<rparr>, c, db)
         | Some (mail, pw) \<Rightarrow>
             (case getAuthUser mail db of
                (Inl e, db1) \<Rightarrow> (\<lparr>status = 400, body = Message ''Invalid credentials''\<rparr>, c, db1)
              | (Inr usr, db1) \<Rightarrow>
                  if \<not> compare pw (password usr)
                  then (\<lparr>status = 400, body = Message ''Invalid credentials''\<rparr>, c, db1)
                  else
                    (let token = generateSessionToken bytes
                     in case createSession token (id_user usr) now db1 of
                          (Inl e, db2) \<Rightarrow>
                            (\<lparr>status = 500, body = Message ''Failed to create session''\<rparr>, c, db2)
                        | (Inr s, db2) \<Rightarrow>
                            (\<lparr>status = 200, body = SuccessTrue\<rparr>,
                             setSessionTokenCookie c token (expiresAt s), db2)))))"

text \<open>
  Modelled from the spec: \<^verbatim>\<open>invalidateSession\<close> is not among the sources; sign-out
  deletes the session record. The sign-out route does not look at its result.
\<close>

definition invalidateSession :: "string \<Rightarrow> Store \<Rightarrow> (DbError + unit) \<times> Store" where
  "invalidateSession sessionId db = deleteSession sessionId db"

definition signout_POST :: "Locals \<Rightarrow> Cookies \<Rightarrow> Store \<Rightarrow> Response \<times> Cookies \<times> Store" where
  "signout_POST l c db =
     (let db1 = (case locals_session l of
                   None \<Rightarrow> db
                 | Some s \<Rightarrow> snd (invalidateSession (id_session s) db))
      in (\<lparr>status = 200, body = SuccessTrue\<rparr>, deleteSessionTokenCookie c, db1))"

section \<open>Sequences of validations\<close>

text \<open>
  A run of validations on one store: each has its own token, its own clock reading and its
  own set of failing backend calls.
\<close>

fun validations :: "(string \<times> int \<times> (StoreCall \<Rightarrow> bool)) list \<Rightarrow> Store \<Rightarrow> Store" where
  "validations [] db = db"
| "validations ((token, now, down) # rest) db =
     validations rest (snd (validateSessionToken token now (db\<lparr>unavailable := down\<rparr>)))"

section \<open>Example values\<close>

text \<open>Backends: one that serves every call, one that fails deletes, one that fails updates.\<close>

definition all_up :: "StoreCall \<Rightarrow> bool" where
  "all_up c = False"

fun deletes_down :: "StoreCall \<Rightarrow> bool" where
  "deletes_down (Delete k) = True"
| "deletes_down c = False"

fun gets_down :: "StoreCall \<Rightarrow> bool" where
  "gets_down (Get k) = True"
| "gets_down c = False"

fun updates_down :: "StoreCall \<Rightarrow> bool" where
  "updates_down (UpdateExpiry k t) = True"
| "updates_down c = False"

definition alice :: User where
  "alice = \<lparr>id_user = ''u1'', email = ''alice@example.com'', password = ''correct-horse-hash''\<rparr>"

definition alice_session :: "int \<Rightarrow> Session" where
  "alice_session expiry = \<lparr>id_session = id_of_token ''tok'', userId = ''u1'', expiresAt = expiry\<rparr>"

text \<open>A store that holds Alice and her session for the token \<^verbatim>\<open>tok\<close>.\<close>

definition store_with :: "int \<Rightarrow> (StoreCall \<Rightarrow> bool) \<Rightarrow> Store" where
  "store_with expiry down =
     \<lparr>sessions = [id_of_token ''tok'' \<mapsto> alice_session expiry], users = [alice],
      unavailable = down, issued = []\<rparr>"

definition no_cookies :: Cookies where
  "no_cookies = \<lparr>incoming = Map.empty, secure_default = True, outgoing = Map.empty\<rparr>"

text \<open>A request that carries the cookie \<^verbatim>\<open>session=tok\<close>.\<close>

definition event_with_token :: RequestEvent where
  "event_with_token =
     \<lparr>cookies = \<lparr>incoming = [''session'' \<mapsto> ''tok''], secure_default = True, outgoing = Map.empty\<rparr>,
      locals = anonymous\<rparr>"

text \<open>Three validations of the token \<^verbatim>\<open>tok\<close>; the backend fails the update of the second.\<close>

definition three_validations :: "(string \<times> int \<times> (StoreCall \<Rightarrow> bool)) list" where
  "three_validations =
     [(''tok'', 1000, all_up), (''tok'', 1728000000, updates_down), (''tok'', 1728000001, all_up)]"

text \<open>
  A sign-in request for Alice, with stand-ins for the two library functions: an email test
  that asks for an \<^verbatim>\<open>@\<close>, and a password comparison against a hash that is the
  password followed by \<^verbatim>\<open>-hash\<close>.
\<close>

definition has_at :: "string \<Rightarrow> bool" where
  "has_at e = (CHR ''@'' \<in> set e)"

definition suffix_compare :: "string \<Rightarrow> string \<Rightarrow> bool" where
  "suffix_compare pw h = (h = pw @ ''-hash'')"

definition signin_body :: "string \<Rightarrow> string \<Rightarrow> RequestBody" where
  "signin_body mail pw = Object [''email'' \<mapsto> JString mail, ''password'' \<mapsto> JString pw]"

definition example_bytes :: "u8 list" where
  "example_bytes = replicate 32 42"

text \<open>A store without users and sessions.\<close>

definition empty_store :: Store where
  "empty_store = \<lparr>sessions = Map.empty, users = [], unavailable = all_up, issued = []\<rparr>"

text \<open>A user id as the \<^verbatim>\<open>uuid\<close> column of the user table holds it: 36 characters.\<close>

definition example_uuid :: string where
  "example_uuid = ''123e4567-e89b-12d3-a456-426614174000''"

section \<open>Known answers of the codec\<close>

lemma base32_foobar:
  "encodeBase32LowerCaseNoPadding [0x66, 0x6f, 0x6f, 0x62, 0x61, 0x72] = ''mzxw6ytboi''"
  by code_simp

lemma utf8_e_acute: "encode [CHR 0xe9] = [0xc3, 0xa9]"
  by code_simp

lemma sha256_abc:
  "id_of_token ''abc'' = ''ba7816bf8f01cfea414140de5dae2223b00361a396177a9cb410ff61f20015ad''"
  by code_simp

section \<open>Lengths of tokens and session ids\<close>

lemma length_chunks:
  "0 < n \<Longrightarrow> length (chunks n xs) = (length xs + n - 1) div n"
proof (induction n xs rule: chunks.induct)
  case (1 n xs)
  show ?case
  proof (cases "xs = []")
    case True
    with 1(2) show ?thesis by (simp add: chunks.simps)
  next
    case False
    with 1 have ih: "length (chunks n (drop n xs)) = (length xs - n + n - 1) div n"
      by simp
    from False have pos: "0 < length xs" by simp
    have "(length xs - n + n - 1) div n = (length xs - 1) div n"
    proof (cases "length xs \<le> n")
      case True
      with pos 1(2) have "length xs - n + n - 1 < n" "length xs - 1 < n" by arith+
      then show ?thesis by simp
    next
      case False
      then have "length xs - n + n - 1 = length xs - 1" by arith
      then show ?thesis by (simp only:)
    qed
    moreover have "(length xs + n - 1) div n = Suc ((length xs - 1) div n)"
    proof -
      from pos have e: "length xs + n - 1 = (length xs - 1) + n" by arith
      from 1(2) have "((length xs - 1) + n) div n = Suc ((length xs - 1) div n)"
        using div_add_self2 [of n "length xs - 1"] by simp
      then show ?thesis by (simp only: e)
    qed
    ultimately show ?thesis
      using False 1(2) ih by (simp add: chunks.simps [of n xs])
  qed
qed

lemma length_bits: "length (concat (map bits_of_u8 bytes)) = 8 * length bytes"
  by (induction bytes) (simp_all add: bits_of_u8_def)

lemma length_generateSessionToken:
  "length bytes = 32 \<Longrightarrow> length (generateSessionToken bytes) = 52"
  by (simp add: generateSessionToken_def encodeBase32LowerCaseNoPadding_def length_chunks
        length_bits)

lemma length_sha256: "length (sha256 m) = 32"
  by (simp add: sha256_def bytes_of_u32_def split: prod.splits)

lemma length_encodeHexLowerCase: "length (encodeHexLowerCase bs) = 2 * length bs"
  by (induction bs) (simp_all add: encodeHexLowerCase_def)

lemma length_id_of_token: "length (id_of_token token) = 64"
  by (simp add: id_of_token_def length_encodeHexLowerCase length_sha256)

section \<open>Store operations and the three branches of validation\<close>

lemma issue_fields [simp]:
  "sessions (issue c db) = sessions db"
  "users (issue c db) = users db"
  "unavailable (issue c db) = unavailable db"
  "issued (issue c db) = issued db @ [c]"
  by (simp_all add: issue_def)

lemma getFullSession_store: "snd (getFullSession sid db) = issue (Get sid) db"
  by (simp add: getFullSession_def Let_def split: option.splits)

lemma getFullSession_found:
  assumes "fst (getFullSession sid db) = Inr (u, s)"
  shows "getFullSession sid db = (Inr (u, s), issue (Get sid) db)"
    and "sessions db sid = Some s"
    and "\<not> unavailable db (Get sid)"
  using assms
  by (auto simp: getFullSession_def Let_def split: option.splits if_splits)

lemma validate_outside:
  assumes "fst (getFullSession (id_of_token token) db) = Inr (u, s)"
    and "now < expiresAt s - ms_15d"
  shows "validateSessionToken token now db =
           (Inr \<lparr>session = Some s, user = Some u\<rparr>, issue (Get (id_of_token token)) db)"
proof -
  have "\<not> now \<ge> expiresAt s" "\<not> now \<ge> expiresAt s - ms_15d"
    using assms(2) by (simp_all add: ms_15d_def)
  then show ?thesis
    using getFullSession_found(1) [OF assms(1)]
    by (simp add: validateSessionToken_def id_of_token_def)
qed

lemma validate_expired:
  assumes "fst (getFullSession (id_of_token token) db) = Inr (u, s)"
    and "expiresAt s \<le> now"
  shows "validateSessionToken token now db =
           (if unavailable db (Delete (id_of_token token))
            then (Inl StoreUnavailable, issue (Delete (id_of_token token)) (issue (Get (id_of_token token)) db))
            else (Inr \<lparr>session = None, user = None\<rparr>,
                  (issue (Delete (id_of_token token)) (issue (Get (id_of_token token)) db))
                    \<lparr>sessions := (sessions db)(id_of_token token := None)\<rparr>))"
  using getFullSession_found(1) [OF assms(1)] assms(2)
  by (simp add: validateSessionToken_def id_of_token_def deleteSession_def Let_def)

lemma validate_window:
  assumes "fst (getFullSession (id_of_token token) db) = Inr (u, s)"
    and "expiresAt s - ms_15d \<le> now" and "now < expiresAt s"
  shows "validateSessionToken token now db =
           (if unavailable db (UpdateExpiry (id_of_token token) (now + SESSION_LIFETIME))
            then (Inl StoreUnavailable,
                  issue (UpdateExpiry (id_of_token token) (now + SESSION_LIFETIME))
                    (issue (Get (id_of_token token)) db))
            else (Inr \<lparr>session = Some s, user = Some u\<rparr>,
                  (issue (UpdateExpiry (id_of_token token) (now + SESSION_LIFETIME))
                     (issue (Get (id_of_token token)) db))
                    \<lparr>sessions := (sessions db)(id_of_token token \<mapsto>
                                   s\<lparr>expiresAt := now + SESSION_LIFETIME\<rparr>)\<rparr>))"
  using getFullSession_found(1,2) [OF assms(1)] assms(2,3)
  by (simp add: validateSessionToken_def id_of_token_def extendSession_def Let_def)


lemma example_lookup:
  "fst (getFullSession (id_of_token ''tok'') (store_with expiry down))
     = (if down (Get (id_of_token ''tok'')) then Inl StoreUnavailable
        else Inr (\<lparr>id_of = ''u1'', email_of = ''alice@example.com''\<rparr>, alice_session expiry))"
  by (simp add: getFullSession_def store_with_def alice_def alice_session_def Let_def)

section \<open>Validation outside the renewal window\<close>

text \<open>
  C5. When the record of the token is found and \<open>now < expiresAt - RENEWAL_WINDOW\<close>,
  validation returns the session and its user, and performs no store mutation: both tables
  are unchanged and the only call issued is the lookup, so there is no update and no delete.
\<close>

theorem validate_outside_window_no_mutation:
  assumes "fst (getFullSession (id_of_token token) db) = Inr (u, s)"
    and "now < expiresAt s - ms_15d"
  shows "fst (validateSessionToken token now db) = Inr \<lparr>session = Some s, user = Some u\<rparr>
         \<and> sessions (snd (validateSessionToken token now db)) = sessions db
         \<and> users (snd (validateSessionToken token now db)) = users db
         \<and> issued (snd (validateSessionToken token now db))
             = issued db @ [Get (id_of_token token)]"
  by (simp add: validate_outside [OF assms])

theorem validate_outside_window_witness:
  "fst (getFullSession (id_of_token ''tok'') (store_with 2592000000 all_up))
     = Inr (\<lparr>id_of = ''u1'', email_of = ''alice@example.com''\<rparr>, alice_session 2592000000)
   \<and> (1000 :: int) < expiresAt (alice_session 2592000000) - ms_15d
   \<and> fst (validateSessionToken ''tok'' 1000 (store_with 2592000000 all_up))
       = Inr \<lparr>session = Some (alice_session 2592000000),
              user = Some \<lparr>id_of = ''u1'', email_of = ''alice@example.com''\<rparr>\<rparr>
   \<and> sessions (snd (validateSessionToken ''tok'' 1000 (store_with 2592000000 all_up)))
       = sessions (store_with 2592000000 all_up)
   \<and> issued (snd (validateSessionToken ''tok'' 1000 (store_with 2592000000 all_up)))
       = [Get (id_of_token ''tok'')]"
proof -
  have h1: "fst (getFullSession (id_of_token ''tok'') (store_with 2592000000 all_up))
     = Inr (\<lparr>id_of = ''u1'', email_of = ''alice@example.com''\<rparr>, alice_session 2592000000)"
    by (simp add: example_lookup all_up_def)
  have h2: "(1000 :: int) < expiresAt (alice_session 2592000000) - ms_15d"
    by (simp add: alice_session_def ms_15d_def)
  have "issued (store_with 2592000000 all_up) = []"
    by (simp add: store_with_def)
  then show ?thesis
    using validate_outside_window_no_mutation [OF h1 h2] h1 h2 by simp
qed

section \<open>Validation of an expired session\<close>




section \<open>Validation inside the renewal window\<close>

text \<open>
  C2, as the code has it. When the record of the token is found and
  \<open>expiresAt - RENEWAL_WINDOW \<le> now < expiresAt\<close> with a window of 15 days, and the
  backend serves the renewal write, validation returns the session and its user and issues
  exactly one renewal, which sets the stored expiry to \<open>now\<close> plus 30 days: the new
  value depends on \<open>now\<close> and not on the old expiry.
\<close>

theorem validate_in_window_renews:
  assumes "fst (getFullSession (id_of_token token) db) = Inr (u, s)"
    and "expiresAt s - ms_15d \<le> now" and "now < expiresAt s"
    and "\<not> unavailable db (UpdateExpiry (id_of_token token) (now + SESSION_LIFETIME))"
  shows "fst (validateSessionToken token now db) = Inr \<lparr>session = Some s, user = Some u\<rparr>
         \<and> issued (snd (validateSessionToken token now db))
             = issued db @ [Get (id_of_token token),
                            UpdateExpiry (id_of_token token) (now + 2592000000)]
         \<and> sessions (snd (validateSessionToken token now db))
             = (sessions db)(id_of_token token \<mapsto> s\<lparr>expiresAt := now + 2592000000\<rparr>)
         \<and> ms_15d = 1296000000"
  using assms(4)
  by (simp add: validate_window [OF assms(1,2,3)] SESSION_LIFETIME_def ms_15d_def)

theorem validate_in_window_witness:
  "fst (getFullSession (id_of_token ''tok'') (store_with 2592000000 all_up))
     = Inr (\<lparr>id_of = ''u1'', email_of = ''alice@example.com''\<rparr>, alice_session 2592000000)
   \<and> expiresAt (alice_session 2592000000) - ms_15d \<le> 1728000000
   \<and> (1728000000 :: int) < expiresAt (alice_session 2592000000)
   \<and> \<not> unavailable (store_with 2592000000 all_up)
         (UpdateExpiry (id_of_token ''tok'') (1728000000 + SESSION_LIFETIME))
   \<and> fst (validateSessionToken ''tok'' 1728000000 (store_with 2592000000 all_up))
       = Inr \<lparr>session = Some (alice_session 2592000000),
              user = Some \<lparr>id_of = ''u1'', email_of = ''alice@example.com''\<rparr>\<rparr>
   \<and> issued (snd (validateSessionToken ''tok'' 1728000000 (store_with 2592000000 all_up)))
       = [Get (id_of_token ''tok''), UpdateExpiry (id_of_token ''tok'') 4320000000]
   \<and> sessions (snd (validateSessionToken ''tok'' 1728000000 (store_with 2592000000 all_up)))
        (id_of_token ''tok'') = Some (alice_session 4320000000)"
proof -
  have h1: "fst (getFullSession (id_of_token ''tok'') (store_with 2592000000 all_up))
     = Inr (\<lparr>id_of = ''u1'', email_of = ''alice@example.com''\<rparr>, alice_session 2592000000)"
    by (simp add: example_lookup all_up_def)
  have h2: "expiresAt (alice_session 2592000000) - ms_15d \<le> 1728000000"
    by (simp add: alice_session_def ms_15d_def)
  have h3: "(1728000000 :: int) < expiresAt (alice_session 2592000000)"
    by (simp add: alice_session_def)
  have h4: "\<not> unavailable (store_with 2592000000 all_up)
         (UpdateExpiry (id_of_token ''tok'') (1728000000 + SESSION_LIFETIME))"
    by (simp add: store_with_def all_up_def)
  have "issued (store_with 2592000000 all_up) = []"
    by (simp add: store_with_def)
  then show ?thesis
    using validate_in_window_renews [OF h1 h2 h3 h4] h1 h2 h3 h4
    by (simp add: alice_session_def)
qed

text \<open>
  C2 as stated fails. The record is found inside the window, the backend fails the renewal
  write, and validation returns the store's error, not the identity; the stored expiry is
  the old one.
\<close>

theorem validate_in_window_counterexample:
  "fst (getFullSession (id_of_token ''tok'') (store_with 2592000000 updates_down))
     = Inr (\<lparr>id_of = ''u1'', email_of = ''alice@example.com''\<rparr>, alice_session 2592000000)
   \<and> expiresAt (alice_session 2592000000) - ms_15d \<le> 1728000000
   \<and> 1728000000 < expiresAt (alice_session 2592000000)
   \<and> fst (validateSessionToken ''tok'' 1728000000 (store_with 2592000000 updates_down))
       = Inl StoreUnavailable
   \<and> fst (validateSessionToken ''tok'' 1728000000 (store_with 2592000000 updates_down))
       \<noteq> Inr \<lparr>session = Some (alice_session 2592000000),
               user = Some \<lparr>id_of = ''u1'', email_of = ''alice@example.com''\<rparr>\<rparr>
   \<and> sessions (snd (validateSessionToken ''tok'' 1728000000 (store_with 2592000000 updates_down)))
        (id_of_token ''tok'') = Some (alice_session 2592000000)
   \<and> alice_session 2592000000 \<noteq> alice_session (1728000000 + 2592000000)"
proof -
  have f: "fst (getFullSession (id_of_token ''tok'') (store_with 2592000000 updates_down))
     = Inr (\<lparr>id_of = ''u1'', email_of = ''alice@example.com''\<rparr>, alice_session 2592000000)"
    by (simp add: example_lookup)
  have w: "expiresAt (alice_session 2592000000) - ms_15d \<le> 1728000000"
    by (simp add: alice_session_def ms_15d_def)
  have x: "1728000000 < expiresAt (alice_session 2592000000)"
    by (simp add: alice_session_def)
  have d: "unavailable (store_with 2592000000 updates_down)
             (UpdateExpiry (id_of_token ''tok'') (1728000000 + SESSION_LIFETIME))"
    and s: "sessions (store_with 2592000000 updates_down) (id_of_token ''tok'')
              = Some (alice_session 2592000000)"
    by (simp_all add: store_with_def)
  have "validateSessionToken ''tok'' 1728000000 (store_with 2592000000 updates_down)
          = (Inl StoreUnavailable,
             issue (UpdateExpiry (id_of_token ''tok'') (1728000000 + SESSION_LIFETIME))
               (issue (Get (id_of_token ''tok'')) (store_with 2592000000 updates_down)))"
    using d by (simp add: validate_window [OF f w x])
  moreover have "alice_session 2592000000 \<noteq> alice_session (1728000000 + 2592000000)"
    by (simp add: alice_session_def)
  ultimately show ?thesis using f w x s by simp
qed

section \<open>Store failures during validation\<close>

lemma handle_on_error:
  assumes "getSessionCookie event = Some token" and "token \<noteq> []"
    and "fst (validateSessionToken token now db) = Inl e"
  shows "handle event now db =
           (event\<lparr>locals := anonymous, cookies := deleteSessionTokenCookie (cookies event)\<rparr>,
            snd (validateSessionToken token now db))"
  using assms by (cases "validateSessionToken token now db") (simp add: handle_def)

lemma deleted_cookie:
  "outgoing (deleteSessionTokenCookie c) ''session''
     = Some (''token'', \<lparr>httpOnly = Some True, sameSite = Some Lax, secure = Some (secure_default c),
                         expires = None, maxAge = Some 0, path = Some ''/''\<rparr>)"
  by (simp add: deleteSessionTokenCookie_def cookies_set_def with_defaults_def)

text \<open>
  C1, as the code has it. When the record is found and the write that validation issues
  fails (the delete of an expired record, or the renewal inside the window), the failure is
  not swallowed: validation returns the store's error instead of a result, the record stays
  as it was, and the middleware then treats the request as anonymous and clears the cookie.
\<close>

theorem validation_write_failure_propagates:
  assumes "fst (getFullSession (id_of_token token) db) = Inr (u, s)"
    and "expiresAt s - ms_15d \<le> now"
    and "unavailable db (if expiresAt s \<le> now then Delete (id_of_token token)
                         else UpdateExpiry (id_of_token token) (now + SESSION_LIFETIME))"
    and "getSessionCookie event = Some token" and "token \<noteq> []"
  shows "fst (validateSessionToken token now db) = Inl StoreUnavailable
         \<and> sessions (snd (validateSessionToken token now db)) = sessions db
         \<and> handle event now db =
             (event\<lparr>locals := anonymous, cookies := deleteSessionTokenCookie (cookies event)\<rparr>,
              snd (validateSessionToken token now db))"
proof -
  have v: "fst (validateSessionToken token now db) = Inl StoreUnavailable
           \<and> sessions (snd (validateSessionToken token now db)) = sessions db"
  proof (cases "expiresAt s \<le> now")
    case True
    with assms(3) show ?thesis by (simp add: validate_expired [OF assms(1) True])
  next
    case False
    then have "now < expiresAt s" by simp
    from validate_window [OF assms(1,2) this] assms(3) False show ?thesis by simp
  qed
  then show ?thesis using handle_on_error [OF assms(4,5)] by simp
qed

theorem validation_write_failure_witness:
  "fst (getFullSession (id_of_token ''tok'') (store_with 1000 deletes_down))
     = Inr (\<lparr>id_of = ''u1'', email_of = ''alice@example.com''\<rparr>, alice_session 1000)
   \<and> expiresAt (alice_session 1000) - ms_15d \<le> 2000
   \<and> unavailable (store_with 1000 deletes_down)
        (if expiresAt (alice_session 1000) \<le> 2000 then Delete (id_of_token ''tok'')
         else UpdateExpiry (id_of_token ''tok'') (2000 + SESSION_LIFETIME))
   \<and> getSessionCookie event_with_token = Some ''tok'' \<and> ''tok'' \<noteq> []
   \<and> fst (validateSessionToken ''tok'' 2000 (store_with 1000 deletes_down)) = Inl StoreUnavailable
   \<and> sessions (snd (validateSessionToken ''tok'' 2000 (store_with 1000 deletes_down)))
        (id_of_token ''tok'') = Some (alice_session 1000)
   \<and> locals (fst (handle event_with_token 2000 (store_with 1000 deletes_down))) = anonymous"
proof -
  have h1: "fst (getFullSession (id_of_token ''tok'') (store_with 1000 deletes_down))
     = Inr (\<lparr>id_of = ''u1'', email_of = ''alice@example.com''\<rparr>, alice_session 1000)"
    by (simp add: example_lookup)
  have h2: "expiresAt (alice_session 1000) - ms_15d \<le> 2000"
    by (simp add: alice_session_def ms_15d_def)
  have h3: "unavailable (store_with 1000 deletes_down)
        (if expiresAt (alice_session 1000) \<le> 2000 then Delete (id_of_token ''tok'')
         else UpdateExpiry (id_of_token ''tok'') (2000 + SESSION_LIFETIME))"
    by (simp add: store_with_def alice_session_def)
  have h4: "getSessionCookie event_with_token = Some ''tok''"
    by (simp add: getSessionCookie_def event_with_token_def)
  have h5: "''tok'' \<noteq> []" by simp
  have "sessions (store_with 1000 deletes_down) (id_of_token ''tok'') = Some (alice_session 1000)"
    by (simp add: store_with_def)
  then show ?thesis
    using validation_write_failure_propagates [OF h1 h2 h3 h4 h5] h1 h2 h3 h4 by simp
qed

text \<open>
  C1 as stated fails. With a backend that fails deletes, validating an expired session
  does not return the null result; with a backend that fails updates, validating a session
  inside the window does not return the identity, and the middleware leaves the request
  without a user.
\<close>

theorem validation_write_failure_counterexample:
  "fst (getFullSession (id_of_token ''tok'') (store_with 1000 deletes_down))
     = Inr (\<lparr>id_of = ''u1'', email_of = ''alice@example.com''\<rparr>, alice_session 1000)
   \<and> expiresAt (alice_session 1000) \<le> 2000
   \<and> fst (validateSessionToken ''tok'' 2000 (store_with 1000 deletes_down))
       \<noteq> Inr \<lparr>session = None, user = None\<rparr>
   \<and> fst (getFullSession (id_of_token ''tok'') (store_with 2592000000 updates_down))
       = Inr (\<lparr>id_of = ''u1'', email_of = ''alice@example.com''\<rparr>, alice_session 2592000000)
   \<and> expiresAt (alice_session 2592000000) - ms_15d \<le> 1728000000
   \<and> 1728000000 < expiresAt (alice_session 2592000000)
   \<and> fst (validateSessionToken ''tok'' 1728000000 (store_with 2592000000 updates_down))
       \<noteq> Inr \<lparr>session = Some (alice_session 2592000000),
               user = Some \<lparr>id_of = ''u1'', email_of = ''alice@example.com''\<rparr>\<rparr>
   \<and> fst (validateSessionToken ''tok'' 1728000000 (store_with 2592000000 updates_down))
       = Inl StoreUnavailable
   \<and> locals_user (locals (fst (handle event_with_token 1728000000
                                   (store_with 2592000000 updates_down)))) = None"
proof -
  have a1: "fst (getFullSession (id_of_token ''tok'') (store_with 1000 deletes_down))
     = Inr (\<lparr>id_of = ''u1'', email_of = ''alice@example.com''\<rparr>, alice_session 1000)"
    by (simp add: example_lookup)
  have a2: "expiresAt (alice_session 1000) \<le> 2000"
    by (simp add: alice_session_def)
  have "unavailable (store_with 1000 deletes_down) (Delete (id_of_token ''tok''))"
    by (simp add: store_with_def)
  then have a3: "fst (validateSessionToken ''tok'' 2000 (store_with 1000 deletes_down))
              = Inl StoreUnavailable"
    by (simp add: validate_expired [OF a1 a2])
  have b1: "fst (getFullSession (id_of_token ''tok'') (store_with 2592000000 updates_down))
       = Inr (\<lparr>id_of = ''u1'', email_of = ''alice@example.com''\<rparr>, alice_session 2592000000)"
    by (simp add: example_lookup)
  have b2: "expiresAt (alice_session 2592000000) - ms_15d \<le> 1728000000"
    by (simp add: alice_session_def ms_15d_def)
  have b3: "1728000000 < expiresAt (alice_session 2592000000)"
    by (simp add: alice_session_def)
  have "unavailable (store_with 2592000000 updates_down)
          (UpdateExpiry (id_of_token ''tok'') (1728000000 + SESSION_LIFETIME))"
    by (simp add: store_with_def)
  then have b4: "fst (validateSessionToken ''tok'' 1728000000 (store_with 2592000000 updates_down))
              = Inl StoreUnavailable"
    by (simp add: validate_window [OF b1 b2 b3])
  have c1: "getSessionCookie event_with_token = Some ''tok''"
    by (simp add: getSessionCookie_def event_with_token_def)
  have b5: "locals_user (locals (fst (handle event_with_token 1728000000
                                   (store_with 2592000000 updates_down)))) = None"
    by (simp add: handle_on_error [OF c1 _ b4] anonymous_def)
  show ?thesis using a1 a2 a3 b1 b2 b3 b4 b5 by simp
qed

section \<open>The middleware fails open\<close>

text \<open>
  C9. When a request carries a session token and its validation ends in an error, the
  middleware sets user and session of the request context to null, clears the session
  cookie, and hands the request on to the route: it does not reject it.
\<close>

theorem handle_fails_open:
  assumes "getSessionCookie event = Some token" and "token \<noteq> []"
    and "fst (validateSessionToken token now db) = Inl e"
  shows "handle event now db =
           (event\<lparr>locals := anonymous, cookies := deleteSessionTokenCookie (cookies event)\<rparr>,
            snd (validateSessionToken token now db))
         \<and> locals_user (locals (fst (handle event now db))) = None
         \<and> locals_session (locals (fst (handle event now db))) = None
         \<and> outgoing (cookies (fst (handle event now db))) ''session''
             = Some (''token'', \<lparr>httpOnly = Some True, sameSite = Some Lax,
                                 secure = Some (secure_default (cookies event)),
                                 expires = None, maxAge = Some 0, path = Some ''/''\<rparr>)"
  by (simp add: handle_on_error [OF assms] anonymous_def deleted_cookie)

theorem handle_fails_open_witness:
  "getSessionCookie event_with_token = Some ''tok'' \<and> ''tok'' \<noteq> []
   \<and> fst (validateSessionToken ''tok'' 1000 (store_with 2592000000 gets_down)) = Inl StoreUnavailable
   \<and> locals_user (locals (fst (handle event_with_token 1000 (store_with 2592000000 gets_down)))) = None
   \<and> locals_session (locals (fst (handle event_with_token 1000 (store_with 2592000000 gets_down)))) = None
   \<and> outgoing (cookies (fst (handle event_with_token 1000 (store_with 2592000000 gets_down)))) ''session''
       = Some (''token'', \<lparr>httpOnly = Some True, sameSite = Some Lax, secure = Some True,
                           expires = None, maxAge = Some 0, path = Some ''/''\<rparr>)"
proof -
  have h1: "getSessionCookie event_with_token = Some ''tok''"
    by (simp add: getSessionCookie_def event_with_token_def)
  have h2: "''tok'' \<noteq> []" by simp
  have h3: "fst (validateSessionToken ''tok'' 1000 (store_with 2592000000 gets_down))
              = Inl StoreUnavailable"
    by (simp add: validateSessionToken_def getFullSession_def store_with_def Let_def)
  have "secure_default (cookies event_with_token) = True"
    by (simp add: event_with_token_def)
  then show ?thesis
    using handle_fails_open [OF h1 h2 h3] h1 h3 by (simp add: anonymous_def deleted_cookie)
qed

section \<open>The expiry of a session never moves backward\<close>

lemma validate_step_monotone:
  assumes "sessions (snd (validateSessionToken token now db)) sid = Some s2"
  shows "\<exists>s1. sessions db sid = Some s1 \<and> expiresAt s1 \<le> expiresAt s2 \<and> userId s1 = userId s2"
  using assms
  by (auto simp: validateSessionToken_def getFullSession_def deleteSession_def extendSession_def
        Let_def SESSION_LIFETIME_def ms_15d_def
      split: if_splits option.splits)

lemma validations_monotone:
  "sessions (validations ops db) sid = Some s2
   \<Longrightarrow> \<exists>s1. sessions db sid = Some s1 \<and> expiresAt s1 \<le> expiresAt s2 \<and> userId s1 = userId s2"
proof (induction ops arbitrary: db)
  case Nil
  then show ?case by simp
next
  case (Cons op ops)
  obtain token now down where op: "op = (token, now, down)" by (cases op)
  let ?db1 = "snd (validateSessionToken token now (db\<lparr>unavailable := down\<rparr>))"
  from Cons.prems op have "sessions (validations ops ?db1) sid = Some s2" by simp
  from Cons.IH [OF this] obtain s where
    s: "sessions ?db1 sid = Some s" "expiresAt s \<le> expiresAt s2" "userId s = userId s2" by blast
  from validate_step_monotone [OF s(1)] obtain s1 where
    "sessions db sid = Some s1" "expiresAt s1 \<le> expiresAt s" "userId s1 = userId s" by auto
  with s show ?case by auto
qed

lemma validations_append: "validations (xs @ ys) db = validations ys (validations xs db)"
  by (induction xs arbitrary: db) auto

text \<open>
  C6. Along any sequence of validations (each with its own token, clock reading and
  backend failures, each renewing or deleting as the code decides), a session that is
  in the store at two points of the sequence has, at the later point, an expiry that is
  not earlier than at the first.
\<close>

theorem expiresAt_never_moves_backward:
  assumes "sessions (validations ops1 db) sid = Some s1"
    and "sessions (validations (ops1 @ ops2) db) sid = Some s2"
  shows "expiresAt s1 \<le> expiresAt s2"
  using validations_monotone [of ops2 "validations ops1 db" sid s2] assms
  by (auto simp: validations_append)

lemma store_with_unavailable [simp]:
  "(store_with expiry down)\<lparr>unavailable := down'\<rparr> = store_with expiry down'"
  by (simp add: store_with_def)

lemma example_validations:
  "sessions (validations (take 1 three_validations) (store_with 2592000000 all_up)) (id_of_token ''tok'')
     = Some (alice_session 2592000000)"
  "sessions (validations three_validations (store_with 2592000000 all_up)) (id_of_token ''tok'')
     = Some (alice_session 4320000001)"
proof -
  have l: "\<And>e d. fst (getFullSession (id_of_token ''tok'') (store_with e d))
     = (if d (Get (id_of_token ''tok'')) then Inl StoreUnavailable
        else Inr (\<lparr>id_of = ''u1'', email_of = ''alice@example.com''\<rparr>, alice_session e))"
    by (rule example_lookup)
  have v1: "validateSessionToken ''tok'' 1000 (store_with 2592000000 all_up)
              = (Inr \<lparr>session = Some (alice_session 2592000000),
                      user = Some \<lparr>id_of = ''u1'', email_of = ''alice@example.com''\<rparr>\<rparr>,
                 issue (Get (id_of_token ''tok'')) (store_with 2592000000 all_up))"
    by (rule validate_outside) (simp_all add: l all_up_def alice_session_def ms_15d_def)
  show "sessions (validations (take 1 three_validations) (store_with 2592000000 all_up)) (id_of_token ''tok'')
     = Some (alice_session 2592000000)"
    by (simp add: three_validations_def v1) (simp add: store_with_def)
  show "sessions (validations three_validations (store_with 2592000000 all_up)) (id_of_token ''tok'')
     = Some (alice_session 4320000001)"
    by (simp add: three_validations_def validateSessionToken_def getFullSession_def
          extendSession_def deleteSession_def Let_def store_with_def alice_session_def alice_def
          all_up_def ms_15d_def SESSION_LIFETIME_def id_of_token_def issue_def)
qed

theorem expiresAt_never_moves_backward_witness:
  "sessions (validations (take 1 three_validations) (store_with 2592000000 all_up)) (id_of_token ''tok'')
     = Some (alice_session 2592000000)
   \<and> sessions (validations (take 1 three_validations @ drop 1 three_validations)
                 (store_with 2592000000 all_up)) (id_of_token ''tok'')
     = Some (alice_session 4320000001)
   \<and> expiresAt (alice_session 2592000000) \<le> expiresAt (alice_session 4320000001)"
proof -
  have h1: "sessions (validations (take 1 three_validations) (store_with 2592000000 all_up))
              (id_of_token ''tok'') = Some (alice_session 2592000000)"
    by (rule example_validations)
  have h2: "sessions (validations (take 1 three_validations @ drop 1 three_validations)
                 (store_with 2592000000 all_up)) (id_of_token ''tok'')
     = Some (alice_session 4320000001)"
    by (simp add: example_validations)
  show ?thesis
    using expiresAt_never_moves_backward [OF h1 h2] h1 h2 by simp
qed

section \<open>Session creation and sign-in\<close>

lemma createSession_eq:
  "createSession token uid now db =
     (if unavailable db (Put \<lparr>id_session = id_of_token token, userId = uid,
                               expiresAt = now + 2592000000\<rparr>)
      then (Inl StoreUnavailable,
            issue (Put \<lparr>id_session = id_of_token token, userId = uid,
                         expiresAt = now + 2592000000\<rparr>) db)
      else (Inr \<lparr>id_session = id_of_token token, userId = uid, expiresAt = now + 2592000000\<rparr>,
            (issue (Put \<lparr>id_session = id_of_token token, userId = uid,
                          expiresAt = now + 2592000000\<rparr>) db)
              \<lparr>sessions := (sessions db)(id_of_token token \<mapsto>
                 \<lparr>id_session = id_of_token token, userId = uid,
                  expiresAt = now + 2592000000\<rparr>)\<rparr>))"
  by (simp add: createSession_def createSessionDb_def Let_def id_of_token_def)

lemma getAuthUser_store: "snd (getAuthUser mail db) = issue (GetUserByEmail mail) db"
  by (simp add: getAuthUser_def Let_def split: option.splits)

lemma getAuthUser_found:
  "fst (getAuthUser mail db) = Inr usr \<Longrightarrow> usr \<in> set (users db) \<and> email usr = mail"
  by (auto simp: getAuthUser_def Let_def find_Some_iff split: option.splits if_splits)

lemma parsed_is_json: "schema_parse isEmail b = Some p \<Longrightarrow> b \<noteq> InvalidJson"
  by (auto simp: schema_parse_def)

lemma signin_rejects:
  assumes "schema_parse isEmail b = Some (mail, pw)"
    and "(\<exists>e. fst (getAuthUser mail db) = Inl e)
         \<or> (\<exists>usr. fst (getAuthUser mail db) = Inr usr \<and> \<not> compare pw (password usr))"
  shows "signin_POST isEmail compare bytes now b c db =
           (\<lparr>status = 400, body = Message ''Invalid credentials''\<rparr>, c,
            issue (GetUserByEmail mail) db)"
proof -
  obtain r where r: "getAuthUser mail db = (r, issue (GetUserByEmail mail) db)"
    using getAuthUser_store [of mail db] by (cases "getAuthUser mail db") simp
  from assms(1) have nb: "b \<noteq> InvalidJson" by (rule parsed_is_json)
  from assms(2) r show ?thesis
    using assms(1) nb
    by (cases b; cases r) (auto simp: signin_POST_def)
qed

lemma signin_rejected_before_lookup:
  "schema_parse isEmail b = None \<Longrightarrow>
   signin_POST isEmail compare bytes now b c db =
     (if b = InvalidJson then \<lparr>status = 500, body = Message ''Internal server error''\<rparr>
      else \<lparr>status = 400, body = Message ''Invalid input''\<rparr>, c, db)"
  by (cases b) (simp_all add: signin_POST_def)

lemma signin_success:
  assumes "status (fst (signin_POST isEmail compare bytes now b c db)) = 200"
  shows "\<exists>mail pw usr.
           schema_parse isEmail b = Some (mail, pw)
           \<and> fst (getAuthUser mail db) = Inr usr \<and> compare pw (password usr)
           \<and> signin_POST isEmail compare bytes now b c db =
               (\<lparr>status = 200, body = SuccessTrue\<rparr>,
                setSessionTokenCookie c (generateSessionToken bytes) (now + 2592000000),
                (issue (Put \<lparr>id_session = id_of_token (generateSessionToken bytes),
                              userId = id_user usr, expiresAt = now + 2592000000\<rparr>)
                   (issue (GetUserByEmail mail) db))
                  \<lparr>sessions := (sessions db)(id_of_token (generateSessionToken bytes) \<mapsto>
                     \<lparr>id_session = id_of_token (generateSessionToken bytes),
                      userId = id_user usr, expiresAt = now + 2592000000\<rparr>)\<rparr>)"
proof (cases "schema_parse isEmail b")
  case None
  with assms show ?thesis by (cases b) (simp_all add: signin_POST_def)
next
  case (Some p)
  obtain mail pw where p: "p = (mail, pw)" by (cases p)
  from Some have nb: "b \<noteq> InvalidJson" by (rule parsed_is_json)
  obtain r where r: "getAuthUser mail db = (r, issue (GetUserByEmail mail) db)"
    using getAuthUser_store [of mail db] by (cases "getAuthUser mail db") simp
  show ?thesis
  proof (cases r)
    case (Inl e)
    with assms Some p r nb show ?thesis by (cases b) (simp_all add: signin_POST_def)
  next
    case (Inr usr)
    show ?thesis
    proof (cases "compare pw (password usr)")
      case False
      with assms Some p r nb Inr show ?thesis by (cases b) (simp_all add: signin_POST_def)
    next
      case True
      with assms Some p r nb Inr show ?thesis
        by (cases b)
           (auto simp: signin_POST_def createSession_eq Let_def split: if_splits)
    qed
  qed
qed


lemma set_cookie:
  "outgoing (setSessionTokenCookie c token expiry) ''session''
     = Some (token, \<lparr>httpOnly = Some True, sameSite = Some Lax, secure = Some (secure_default c),
                     expires = Some expiry, maxAge = None, path = Some ''/''\<rparr>)"
  by (simp add: setSessionTokenCookie_def cookies_set_def with_defaults_def)

lemma example_signin:
  "signin_POST has_at suffix_compare example_bytes 5000
       (signin_body ''alice@example.com'' ''correct-horse'') no_cookies (store_with 1000 all_up)
     = (\<lparr>status = 200, body = SuccessTrue\<rparr>,
        setSessionTokenCookie no_cookies (generateSessionToken example_bytes) 2592005000,
        (issue (Put \<lparr>id_session = id_of_token (generateSessionToken example_bytes),
                      userId = ''u1'', expiresAt = 2592005000\<rparr>)
           (issue (GetUserByEmail ''alice@example.com'') (store_with 1000 all_up)))
          \<lparr>sessions := (sessions (store_with 1000 all_up))
             (id_of_token (generateSessionToken example_bytes) \<mapsto>
                \<lparr>id_session = id_of_token (generateSessionToken example_bytes),
                 userId = ''u1'', expiresAt = 2592005000\<rparr>)\<rparr>)"
  by (simp add: signin_POST_def signin_body_def schema_parse_def has_at_def suffix_compare_def
        getAuthUser_def store_with_def alice_def all_up_def createSession_eq Let_def)

section \<open>The session cookie\<close>

text \<open>
  C4. The cookie written at login is named \<^verbatim>\<open>session\<close>, its value is the raw token,
  and it is HttpOnly, SameSite=Lax, Path=/, with \<^verbatim>\<open>expires\<close> equal to the expiry of the
  session that the sign-in stored. The code passes no \<^verbatim>\<open>secure\<close> option, so the Secure
  attribute is the framework's default (on, except over plain http to localhost). Clearing
  the cookie, as sign-out does, writes the same cookie name with Max-Age=0 and the same
  HttpOnly, SameSite, Path and Secure attributes.
\<close>

theorem session_cookie_attributes:
  "outgoing (setSessionTokenCookie c token expiry) ''session''
     = Some (token, \<lparr>httpOnly = Some True, sameSite = Some Lax, secure = Some (secure_default c),
                     expires = Some expiry, maxAge = None, path = Some ''/''\<rparr>)
   \<and> outgoing (deleteSessionTokenCookie c) ''session''
       = Some (''token'', \<lparr>httpOnly = Some True, sameSite = Some Lax,
                           secure = Some (secure_default c),
                           expires = None, maxAge = Some 0, path = Some ''/''\<rparr>)
   \<and> fst (snd (signout_POST l c db)) = deleteSessionTokenCookie c
   \<and> (status (fst (signin_POST isEmail compare bytes now b c db)) = 200 \<longrightarrow>
        (\<exists>s. sessions (snd (snd (signin_POST isEmail compare bytes now b c db)))
                 (id_of_token (generateSessionToken bytes)) = Some s
             \<and> fst (snd (signin_POST isEmail compare bytes now b c db))
                 = setSessionTokenCookie c (generateSessionToken bytes) (expiresAt s)))"
proof -
  have "status (fst (signin_POST isEmail compare bytes now b c db)) = 200 \<Longrightarrow>
        (\<exists>s. sessions (snd (snd (signin_POST isEmail compare bytes now b c db)))
                 (id_of_token (generateSessionToken bytes)) = Some s
             \<and> fst (snd (signin_POST isEmail compare bytes now b c db))
                 = setSessionTokenCookie c (generateSessionToken bytes) (expiresAt s))"
    using signin_success [of isEmail compare bytes now b c db] by auto
  then show ?thesis
    by (simp add: set_cookie deleted_cookie signout_POST_def Let_def)
qed

theorem session_cookie_attributes_witness:
  "status (fst (signin_POST has_at suffix_compare example_bytes 5000
             (signin_body ''alice@example.com'' ''correct-horse'') no_cookies
             (store_with 1000 all_up))) = 200
   \<and> outgoing (fst (snd (signin_POST has_at suffix_compare example_bytes 5000
             (signin_body ''alice@example.com'' ''correct-horse'') no_cookies
             (store_with 1000 all_up)))) ''session''
       = Some (generateSessionToken example_bytes,
               \<lparr>httpOnly = Some True, sameSite = Some Lax, secure = Some True,
                expires = Some 2592005000, maxAge = None, path = Some ''/''\<rparr>)
   \<and> outgoing (deleteSessionTokenCookie no_cookies) ''session''
       = Some (''token'', \<lparr>httpOnly = Some True, sameSite = Some Lax, secure = Some True,
                           expires = None, maxAge = Some 0, path = Some ''/''\<rparr>)"
proof -
  have sd: "secure_default no_cookies = True" by (simp add: no_cookies_def)
  have st: "status (fst (signin_POST has_at suffix_compare example_bytes 5000
             (signin_body ''alice@example.com'' ''correct-horse'') no_cookies
             (store_with 1000 all_up))) = 200"
    by (simp add: example_signin)
  from session_cookie_attributes [of no_cookies "generateSessionToken example_bytes" 2592005000
        anonymous "store_with 1000 all_up" has_at suffix_compare example_bytes 5000
        "signin_body ''alice@example.com'' ''correct-horse''"]
  show ?thesis
    using st sd by (simp add: example_signin)
qed


section \<open>Login followed by validation\<close>

lemma find_by_id:
  "usr \<in> set us \<Longrightarrow> \<exists>u. find (\<lambda>x. id_user x = id_user usr) us = Some u \<and> id_user u = id_user usr"
  by (cases "find (\<lambda>x. id_user x = id_user usr) us") (auto simp: find_None_iff find_Some_iff)

lemma find_unique_id:
  assumes "usr \<in> set us" and "distinct (map id_user us)"
    and "find (\<lambda>x. id_user x = id_user usr) us = Some u0"
  shows "u0 = usr"
proof -
  from assms(3) have "u0 \<in> set us" "id_user u0 = id_user usr"
    by (auto simp: find_Some_iff)
  moreover from assms(2) have "inj_on id_user (set us)"
    by (simp add: distinct_map)
  ultimately show ?thesis using assms(1) by (auto dest: inj_onD)
qed

lemma example_signin_lookup_down:
  "signin_POST has_at suffix_compare example_bytes 5000
       (signin_body ''alice@example.com'' ''correct-horse'') no_cookies (store_with 1000 gets_down)
     = (\<lparr>status = 200, body = SuccessTrue\<rparr>,
        setSessionTokenCookie no_cookies (generateSessionToken example_bytes) 2592005000,
        (issue (Put \<lparr>id_session = id_of_token (generateSessionToken example_bytes),
                      userId = ''u1'', expiresAt = 2592005000\<rparr>)
           (issue (GetUserByEmail ''alice@example.com'') (store_with 1000 gets_down)))
          \<lparr>sessions := (sessions (store_with 1000 gets_down))
             (id_of_token (generateSessionToken example_bytes) \<mapsto>
                \<lparr>id_session = id_of_token (generateSessionToken example_bytes),
                 userId = ''u1'', expiresAt = 2592005000\<rparr>)\<rparr>)"
  by (simp add: signin_POST_def signin_body_def schema_parse_def has_at_def suffix_compare_def
        getAuthUser_def store_with_def alice_def createSession_eq Let_def)

text \<open>
  C7, as the code has it. After a successful sign-in at \<open>t0\<close> with the email and
  password of the request and the token generated from the random bytes, the store holds a
  session under the id of the token whose user id is that of the row found for the email of
  the request (whose password matched), with \<open>expiresAt = t0 + 30 days\<close>, and the
  cookie carries the token with that expiry. A validation of the token at any
  \<open>t < t0 + 15 days\<close> (for instance \<open>t0\<close> plus one second), provided the backend serves
  its lookup, returns that session and the id of that user, and, user ids being unique, that
  user's id and email; the store afterwards differs only by the lookup in the issued calls,
  so no renewal is issued.
\<close>

theorem login_creates_session_then_validates:
  assumes "status (fst (signin_POST isEmail compare bytes t0 b c db)) = 200"
    and "schema_parse isEmail b = Some (mail, pw)"
    and "\<not> unavailable db (Get (id_of_token (generateSessionToken bytes)))"
    and "t < t0 + ms_15d"
  shows "\<exists>usr s u.
           fst (getAuthUser mail db) = Inr usr \<and> email usr = mail \<and> compare pw (password usr)
           \<and> s = \<lparr>id_session = id_of_token (generateSessionToken bytes), userId = id_user usr,
                  expiresAt = t0 + 2592000000\<rparr>
           \<and> sessions (snd (snd (signin_POST isEmail compare bytes t0 b c db)))
                (id_of_token (generateSessionToken bytes)) = Some s
           \<and> outgoing (fst (snd (signin_POST isEmail compare bytes t0 b c db))) ''session''
               = Some (generateSessionToken bytes,
                       \<lparr>httpOnly = Some True, sameSite = Some Lax,
                        secure = Some (secure_default c),
                        expires = Some (expiresAt s), maxAge = None, path = Some ''/''\<rparr>)
           \<and> validateSessionToken (generateSessionToken bytes) t
                 (snd (snd (signin_POST isEmail compare bytes t0 b c db)))
               = (Inr \<lparr>session = Some s, user = Some u\<rparr>,
                  issue (Get (id_of_token (generateSessionToken bytes)))
                    (snd (snd (signin_POST isEmail compare bytes t0 b c db))))
           \<and> id_of u = id_user usr
           \<and> (distinct (map id_user (users db))
                \<longrightarrow> u = \<lparr>id_of = id_user usr, email_of = mail\<rparr>)"
proof -
  let ?tok = "generateSessionToken bytes"
  from signin_success [OF assms(1)] assms(2) obtain usr where
    found: "fst (getAuthUser mail db) = Inr usr" and pwok: "compare pw (password usr)" and
    post: "signin_POST isEmail compare bytes t0 b c db =
             (\<lparr>status = 200, body = SuccessTrue\<rparr>,
              setSessionTokenCookie c ?tok (t0 + 2592000000),
              (issue (Put \<lparr>id_session = id_of_token ?tok, userId = id_user usr,
                            expiresAt = t0 + 2592000000\<rparr>)
                 (issue (GetUserByEmail mail) db))
                \<lparr>sessions := (sessions db)(id_of_token ?tok \<mapsto>
                   \<lparr>id_session = id_of_token ?tok, userId = id_user usr,
                    expiresAt = t0 + 2592000000\<rparr>)\<rparr>)"
    by auto
  let ?s = "\<lparr>id_session = id_of_token ?tok, userId = id_user usr, expiresAt = t0 + 2592000000\<rparr>"
  let ?db' = "snd (snd (signin_POST isEmail compare bytes t0 b c db))"
  from getAuthUser_found [OF found] have mem: "usr \<in> set (users db)" and em: "email usr = mail"
    by simp_all
  from find_by_id [OF mem] obtain u0 where
    u0: "find (\<lambda>x. id_user x = id_user usr) (users db) = Some u0" "id_user u0 = id_user usr"
    by blast
  let ?u = "\<lparr>id_of = id_user u0, email_of = email u0\<rparr>"
  have stored: "sessions ?db' (id_of_token ?tok) = Some ?s"
    and us: "users ?db' = users db" and un: "unavailable ?db' = unavailable db"
    by (simp_all add: post)
  have look: "fst (getFullSession (id_of_token ?tok) ?db') = Inr (?u, ?s)"
    using assms(3) u0(1) by (simp add: getFullSession_def Let_def stored us un)
  have "t < expiresAt ?s - ms_15d"
    using assms(4) by (simp add: ms_15d_def)
  from validate_outside [OF look this]
  have val: "validateSessionToken ?tok t ?db'
               = (Inr \<lparr>session = Some ?s, user = Some ?u\<rparr>, issue (Get (id_of_token ?tok)) ?db')" .
  have cookie: "outgoing (fst (snd (signin_POST isEmail compare bytes t0 b c db))) ''session''
               = Some (?tok, \<lparr>httpOnly = Some True, sameSite = Some Lax,
                        secure = Some (secure_default c),
                        expires = Some (expiresAt ?s), maxAge = None, path = Some ''/''\<rparr>)"
    by (simp add: post set_cookie)
  have uniq: "distinct (map id_user (users db)) \<longrightarrow> ?u = \<lparr>id_of = id_user usr, email_of = mail\<rparr>"
    using find_unique_id [OF mem _ u0(1)] em by auto
  from found em pwok stored cookie val u0(2) uniq show ?thesis
    by (intro exI [of _ usr] exI [of _ ?s] exI [of _ ?u]) simp
qed

theorem login_creates_session_witness:
  "status (fst (signin_POST has_at suffix_compare example_bytes 5000
             (signin_body ''alice@example.com'' ''correct-horse'') no_cookies
             (store_with 1000 all_up))) = 200
   \<and> schema_parse has_at (signin_body ''alice@example.com'' ''correct-horse'')
       = Some (''alice@example.com'', ''correct-horse'')
   \<and> \<not> unavailable (store_with 1000 all_up) (Get (id_of_token (generateSessionToken example_bytes)))
   \<and> (6000 :: int) < 5000 + ms_15d
   \<and> fst (getAuthUser ''alice@example.com'' (store_with 1000 all_up)) = Inr alice
   \<and> validateSessionToken (generateSessionToken example_bytes) 6000
         (snd (snd (signin_POST has_at suffix_compare example_bytes 5000
            (signin_body ''alice@example.com'' ''correct-horse'') no_cookies
            (store_with 1000 all_up))))
       = (Inr \<lparr>session = Some \<lparr>id_session = id_of_token (generateSessionToken example_bytes),
                                userId = id_user alice, expiresAt = 5000 + 2592000000\<rparr>,
               user = Some \<lparr>id_of = id_user alice, email_of = ''alice@example.com''\<rparr>\<rparr>,
          issue (Get (id_of_token (generateSessionToken example_bytes)))
            (snd (snd (signin_POST has_at suffix_compare example_bytes 5000
               (signin_body ''alice@example.com'' ''correct-horse'') no_cookies
               (store_with 1000 all_up)))))"
proof -
  have h1: "status (fst (signin_POST has_at suffix_compare example_bytes 5000
             (signin_body ''alice@example.com'' ''correct-horse'') no_cookies
             (store_with 1000 all_up))) = 200"
    by (simp add: example_signin)
  have h2: "schema_parse has_at (signin_body ''alice@example.com'' ''correct-horse'')
       = Some (''alice@example.com'', ''correct-horse'')"
    by (simp add: schema_parse_def signin_body_def has_at_def)
  have h3: "\<not> unavailable (store_with 1000 all_up)
               (Get (id_of_token (generateSessionToken example_bytes)))"
    by (simp add: store_with_def all_up_def)
  have h4: "(6000 :: int) < 5000 + ms_15d" by (simp add: ms_15d_def)
  have a: "fst (getAuthUser ''alice@example.com'' (store_with 1000 all_up)) = Inr alice"
    by (simp add: getAuthUser_def store_with_def all_up_def alice_def Let_def)
  have d: "distinct (map id_user (users (store_with 1000 all_up)))"
    by (simp add: store_with_def)
  from login_creates_session_then_validates
         [where compare = suffix_compare, OF h1 h2 h3 h4] a d
  have "validateSessionToken (generateSessionToken example_bytes) 6000
         (snd (snd (signin_POST has_at suffix_compare example_bytes 5000
            (signin_body ''alice@example.com'' ''correct-horse'') no_cookies
            (store_with 1000 all_up))))
       = (Inr \<lparr>session = Some \<lparr>id_session = id_of_token (generateSessionToken example_bytes),
                                userId = id_user alice, expiresAt = 5000 + 2592000000\<rparr>,
               user = Some \<lparr>id_of = id_user alice, email_of = ''alice@example.com''\<rparr>\<rparr>,
          issue (Get (id_of_token (generateSessionToken example_bytes)))
            (snd (snd (signin_POST has_at suffix_compare example_bytes 5000
               (signin_body ''alice@example.com'' ''correct-horse'') no_cookies
               (store_with 1000 all_up)))))"
    by auto
  with h1 h2 h3 h4 a show ?thesis by simp
qed

text \<open>
  C7 as stated fails. The sign-in succeeds and stores the session, the backend then fails
  session lookups, and the validation one second later returns the store's error, not the
  identity.
\<close>

theorem login_then_validation_counterexample:
  "status (fst (signin_POST has_at suffix_compare example_bytes 5000
             (signin_body ''alice@example.com'' ''correct-horse'') no_cookies
             (store_with 1000 gets_down))) = 200
   \<and> sessions (snd (snd (signin_POST has_at suffix_compare example_bytes 5000
             (signin_body ''alice@example.com'' ''correct-horse'') no_cookies
             (store_with 1000 gets_down))))
        (id_of_token (generateSessionToken example_bytes))
       = Some \<lparr>id_session = id_of_token (generateSessionToken example_bytes),
                userId = ''u1'', expiresAt = 2592005000\<rparr>
   \<and> fst (validateSessionToken (generateSessionToken example_bytes) 6000
            (snd (snd (signin_POST has_at suffix_compare example_bytes 5000
               (signin_body ''alice@example.com'' ''correct-horse'') no_cookies
               (store_with 1000 gets_down)))))
       = Inl StoreUnavailable"
  by (simp add: example_signin_lookup_down validateSessionToken_def getFullSession_def Let_def)
     (simp add: store_with_def)

section \<open>What a created session persists\<close>

text \<open>
  C8. The callers pass \<^verbatim>\<open>createSession\<close> a token that
  \<^verbatim>\<open>generateSessionToken\<close> made from 32 random bytes and the \<^verbatim>\<open>id\<close> of a user
  row, a uuid of 36 characters. For every such token and user id, the record that
  \<^verbatim>\<open>createSession\<close> persists is stored under the hex-encoded SHA-256 of the token, which
  differs from the token; its \<^verbatim>\<open>userId\<close> is the user id, which differs from the token;
  its third field is a time. Nothing else of the store changes, so the raw token is not
  persisted.
\<close>

theorem createSession_persists_hash_not_token:
  assumes "length bytes = 32" and "length uid = 36"
    and "createSession (generateSessionToken bytes) uid now db = (Inr s, db')"
  shows "s = \<lparr>id_session = encodeHexLowerCase (sha256 (encode (generateSessionToken bytes))),
              userId = uid, expiresAt = now + 2592000000\<rparr>
         \<and> sessions db' = (sessions db)(id_session s \<mapsto> s)
         \<and> users db' = users db
         \<and> length (id_session s) = 64
         \<and> length (generateSessionToken bytes) = 52
         \<and> id_session s \<noteq> generateSessionToken bytes
         \<and> userId s \<noteq> generateSessionToken bytes"
proof -
  let ?tok = "generateSessionToken bytes"
  from assms(3) have s: "s = \<lparr>id_session = id_of_token ?tok, userId = uid,
                               expiresAt = now + 2592000000\<rparr>"
    and db': "db' = (issue (Put s) db)\<lparr>sessions := (sessions db)(id_of_token ?tok \<mapsto> s)\<rparr>"
    by (auto simp: createSession_eq split: if_splits)
  have t: "length ?tok = 52" using assms(1) by (rule length_generateSessionToken)
  have k: "length (id_session s) = 64" by (simp add: s length_id_of_token)
  from t k have ne: "id_session s \<noteq> ?tok" by auto
  from t assms(2) have nu: "userId s \<noteq> ?tok" by (auto simp: s)
  from s db' t k ne nu show ?thesis by (simp add: id_of_token_def)
qed

theorem createSession_persists_witness:
  "length example_bytes = 32 \<and> length example_uuid = 36
   \<and> createSession (generateSessionToken example_bytes) example_uuid 5000 (store_with 1000 all_up)
       = (Inr \<lparr>id_session = id_of_token (generateSessionToken example_bytes),
               userId = example_uuid, expiresAt = 2592005000\<rparr>,
          (issue (Put \<lparr>id_session = id_of_token (generateSessionToken example_bytes),
                        userId = example_uuid, expiresAt = 2592005000\<rparr>)
             (store_with 1000 all_up))
            \<lparr>sessions := (sessions (store_with 1000 all_up))
               (id_of_token (generateSessionToken example_bytes) \<mapsto>
                  \<lparr>id_session = id_of_token (generateSessionToken example_bytes),
                   userId = example_uuid, expiresAt = 2592005000\<rparr>)\<rparr>)
   \<and> id_of_token (generateSessionToken example_bytes) \<noteq> generateSessionToken example_bytes
   \<and> example_uuid \<noteq> generateSessionToken example_bytes"
proof -
  have h1: "length example_bytes = 32" by (simp add: example_bytes_def)
  have h2: "length example_uuid = 36" by (simp add: example_uuid_def)
  have h3: "createSession (generateSessionToken example_bytes) example_uuid 5000
              (store_with 1000 all_up)
       = (Inr \<lparr>id_session = id_of_token (generateSessionToken example_bytes),
               userId = example_uuid, expiresAt = 2592005000\<rparr>,
          (issue (Put \<lparr>id_session = id_of_token (generateSessionToken example_bytes),
                        userId = example_uuid, expiresAt = 2592005000\<rparr>)
             (store_with 1000 all_up))
            \<lparr>sessions := (sessions (store_with 1000 all_up))
               (id_of_token (generateSessionToken example_bytes) \<mapsto>
                  \<lparr>id_session = id_of_token (generateSessionToken example_bytes),
                   userId = example_uuid, expiresAt = 2592005000\<rparr>)\<rparr>)"
    by (simp add: createSession_eq) (simp add: store_with_def all_up_def)
  from createSession_persists_hash_not_token [OF h1 h2 h3] h1 h2 h3
  show ?thesis by (simp add: id_of_token_def)
qed

section \<open>Sign-in does not tell an unknown email from a wrong password\<close>

text \<open>
  C10. For a sign-in request that passes the schema, the response when the email is
  unknown and the response when the email is known and the password is wrong are the same:
  status 400 with the message \<^verbatim>\<open>Invalid credentials\<close>. In both cases the cookies are
  untouched, the session table is unchanged, and the only store call is the user lookup.
\<close>

theorem signin_unknown_email_like_wrong_password:
  assumes "schema_parse isEmail b = Some (mail, pw)"
    and "fst (getAuthUser mail db1) = Inl e"
    and "fst (getAuthUser mail db2) = Inr usr" and "\<not> compare pw (password usr)"
  shows "fst (signin_POST isEmail compare bytes now b c db1)
           = \<lparr>status = 400, body = Message ''Invalid credentials''\<rparr>
         \<and> fst (signin_POST isEmail compare bytes now b c db2)
           = \<lparr>status = 400, body = Message ''Invalid credentials''\<rparr>
         \<and> fst (snd (signin_POST isEmail compare bytes now b c db1)) = c
         \<and> fst (snd (signin_POST isEmail compare bytes now b c db2)) = c
         \<and> sessions (snd (snd (signin_POST isEmail compare bytes now b c db1))) = sessions db1
         \<and> sessions (snd (snd (signin_POST isEmail compare bytes now b c db2))) = sessions db2
         \<and> issued (snd (snd (signin_POST isEmail compare bytes now b c db1)))
             = issued db1 @ [GetUserByEmail mail]
         \<and> issued (snd (snd (signin_POST isEmail compare bytes now b c db2)))
             = issued db2 @ [GetUserByEmail mail]"
proof -
  have "signin_POST isEmail compare bytes now b c db1 =
           (\<lparr>status = 400, body = Message ''Invalid credentials''\<rparr>, c,
            issue (GetUserByEmail mail) db1)"
    using assms(1,2) by (intro signin_rejects) auto
  moreover have "signin_POST isEmail compare bytes now b c db2 =
           (\<lparr>status = 400, body = Message ''Invalid credentials''\<rparr>, c,
            issue (GetUserByEmail mail) db2)"
    using assms(1,3,4) by (intro signin_rejects) auto
  ultimately show ?thesis by simp
qed

theorem signin_unknown_email_like_wrong_password_witness:
  "schema_parse has_at (signin_body ''alice@example.com'' ''wrong-password'')
     = Some (''alice@example.com'', ''wrong-password'')
   \<and> fst (getAuthUser ''alice@example.com'' empty_store) = Inl NotFound
   \<and> fst (getAuthUser ''alice@example.com'' (store_with 1000 all_up)) = Inr alice
   \<and> \<not> suffix_compare ''wrong-password'' (password alice)
   \<and> fst (signin_POST has_at suffix_compare example_bytes 5000
            (signin_body ''alice@example.com'' ''wrong-password'') no_cookies empty_store)
       = \<lparr>status = 400, body = Message ''Invalid credentials''\<rparr>
   \<and> fst (signin_POST has_at suffix_compare example_bytes 5000
            (signin_body ''alice@example.com'' ''wrong-password'') no_cookies
            (store_with 1000 all_up))
       = \<lparr>status = 400, body = Message ''Invalid credentials''\<rparr>
   \<and> fst (snd (signin_POST has_at suffix_compare example_bytes 5000
            (signin_body ''alice@example.com'' ''wrong-password'') no_cookies
            (store_with 1000 all_up))) = no_cookies
   \<and> sessions (snd (snd (signin_POST has_at suffix_compare example_bytes 5000
            (signin_body ''alice@example.com'' ''wrong-password'') no_cookies empty_store)))
       = Map.empty"
proof -
  have h1: "schema_parse has_at (signin_body ''alice@example.com'' ''wrong-password'')
     = Some (''alice@example.com'', ''wrong-password'')"
    by (simp add: schema_parse_def signin_body_def has_at_def)
  have h2: "fst (getAuthUser ''alice@example.com'' empty_store) = Inl NotFound"
    by (simp add: getAuthUser_def empty_store_def all_up_def Let_def)
  have h3: "fst (getAuthUser ''alice@example.com'' (store_with 1000 all_up)) = Inr alice"
    by (simp add: getAuthUser_def store_with_def all_up_def alice_def Let_def)
  have h4: "\<not> suffix_compare ''wrong-password'' (password alice)"
    by (simp add: suffix_compare_def alice_def)
  have e: "sessions empty_store = Map.empty" by (simp add: empty_store_def)
  from signin_unknown_email_like_wrong_password
      [where compare = suffix_compare and bytes = example_bytes and now = 5000 and c = no_cookies,
       OF h1 h2 h3 h4]
    h1 h2 h3 h4 e
  show ?thesis by simp
qed

end
